theory Spec2Isabelle
  imports
    Main
    "HOL-Library.Log_Nat"
    "HOL-Library.Char_ord"
    "HOL-Library.List_Lexorder"
begin

section \<open>GearUp: the maintenance-due calculation and the part recommendation\<close>

text \<open>
  The development embeds the rule evaluators of \<^verbatim>\<open>main.py\<close>:
  \<^verbatim>\<open>get_recommended_parts\<close>, \<^verbatim>\<open>calculate_service_due\<close>, the memo inside
  \<^verbatim>\<open>get_wikimedia_summary\<close> and the submission of the Add Vehicle form.

  Conventions of the embedding.
  \<^item> A Python \<^verbatim>\<open>float\<close> is the rational number it denotes. Every arithmetic
    operation on floats is the exact operation followed by \<open>fl_round\<close>, the IEEE 754
    binary64 rounding to nearest with ties to even. Overflow and the subnormal range are
    left out: the magnitudes that occur in the program lie between \<open>1 / 31\<close> and
    \<open>10\<^sup>7\<close>.
  \<^item> A \<^verbatim>\<open>datetime.date\<close> is its proleptic Gregorian ordinal, an \<open>int\<close>; the
    difference of two dates is the difference of the ordinals. The range limit of
    \<^verbatim>\<open>datetime\<close> (years 1 to 9999) is not modelled.
  \<^item> A vehicle record is a Python dictionary. It is a record of optional fields, one per
    key that the program reads or writes; \<open>None\<close> is an absent key.
  \<^item> The module-level tables are association lists in the order of the source, because
    \<^verbatim>\<open>dict.items()\<close> iterates in insertion order.
  \<^item> An uncaught exception is a value \<open>Inl e\<close>.
\<close>

subsection \<open>Python values\<close>

datatype error =
    KeyError string
  | IndexError
  | ZeroDivisionError

type_synonym float = rat
type_synonym date = int

text \<open>\<^verbatim>\<open>d.get(key, default)\<close> on an optional field.\<close>

definition get_or :: "'a option \<Rightarrow> 'a \<Rightarrow> 'a" where
  "get_or field dflt = (case field of None \<Rightarrow> dflt | Some x \<Rightarrow> x)"

subsection \<open>Binary64 arithmetic\<close>

definition pow2 :: "int \<Rightarrow> rat" where
  "pow2 k = (if 0 \<le> k then 2 ^ nat k else 1 / 2 ^ nat (- k))"

text \<open>
  The binary exponent \<open>\<lfloor>log\<^sub>2 x\<rfloor>\<close> of a positive rational, from the bit length of the
  integer part of \<open>x\<close>, or of \<open>1 / x\<close> when \<open>x < 1\<close>.
\<close>

definition ilog2 :: "rat \<Rightarrow> int" where
  "ilog2 x =
     (if 1 \<le> x then bitlen \<lfloor>x\<rfloor> - 1
      else let j = bitlen \<lfloor>1 / x\<rfloor> - 1
           in if x * 2 ^ nat j = 1 then - j else - j - 1)"

definition round_half_even :: "rat \<Rightarrow> int" where
  "round_half_even x =
     (let f = \<lfloor>x\<rfloor>; d = x - of_int f
      in if d < 1 / 2 then f
         else if 1 / 2 < d then f + 1
         else if even f then f else f + 1)"

text \<open>
  Rounding to the nearest binary64 number: the significand has 53 bits, so the unit in the
  last place of \<open>x\<close> is \<open>2\<close> to the power \<open>\<lfloor>log\<^sub>2 \<bar>x\<bar>\<rfloor> - 52\<close>.
\<close>

definition fl_round :: "rat \<Rightarrow> float" where
  "fl_round x =
     (if x = 0 then 0
      else let u = pow2 (ilog2 \<bar>x\<bar> - 52)
           in of_int (round_half_even (x / u)) * u)"

text \<open>The conversion of an \<^verbatim>\<open>int\<close> operand of a mixed operation.\<close>

definition float_of_int :: "int \<Rightarrow> float" where
  "float_of_int n = fl_round (of_int n)"

text \<open>\<^verbatim>\<open>n / y\<close> for an \<^verbatim>\<open>int\<close> \<open>n\<close> and a \<^verbatim>\<open>float\<close> \<open>y\<close>.\<close>

definition int_truediv :: "int \<Rightarrow> float \<Rightarrow> error + float" where
  "int_truediv n y =
     (if y = 0 then Inl ZeroDivisionError else Inr (fl_round (float_of_int n / y)))"

text \<open>\<^verbatim>\<open>n * y\<close> for an \<^verbatim>\<open>int\<close> \<open>n\<close> and a \<^verbatim>\<open>float\<close> \<open>y\<close>.\<close>

definition int_mul_float :: "int \<Rightarrow> float \<Rightarrow> float" where
  "int_mul_float n y = fl_round (float_of_int n * y)"

text \<open>\<^verbatim>\<open>int(x)\<close> truncates towards zero.\<close>

definition py_int :: "float \<Rightarrow> int" where
  "py_int x = (if 0 \<le> x then \<lfloor>x\<rfloor> else \<lceil>x\<rceil>)"

text \<open>
  \<^verbatim>\<open>timedelta(days=x).days\<close> for a float \<open>x\<close>, as the C implementation of
  \<^verbatim>\<open>datetime\<close> computes it: the whole days are taken exactly, the fraction of a day is
  multiplied by the microseconds of a day in binary64, the total is rounded half-even to a
  whole number of microseconds and split by floor division.
\<close>

definition us_per_day :: int where
  "us_per_day = 86400000000"

definition timedelta_days :: "float \<Rightarrow> int" where
  "timedelta_days x =
     (let intpart = py_int x;
          fracpart = x - of_int intpart;
          leftover_us = fl_round (of_int us_per_day * fracpart)
      in round_half_even (of_int (intpart * us_per_day) + leftover_us) div us_per_day)"

text \<open>The literal \<^verbatim>\<open>30.44\<close>.\<close>

definition days_per_month :: float where
  "days_per_month = fl_round (3044 / 100)"

subsection \<open>Vehicle records and the tables\<close>

record vehicle =
  vtype :: "string option"
  brand :: "string option"
  model :: "string option"
  year :: "int option"
  purchase_date :: "date option"
  price :: "int option"
  current_km :: "int option"
  initial_km :: "int option"
  usage :: "string option"
  last_service_km :: "string \<Rightarrow> int option"
  last_service_date :: "string \<Rightarrow> date option"

text \<open>
  \<open>vtype\<close> is the key \<^verbatim>\<open>'type'\<close>; \<open>last_service_km v s\<close> and
  \<open>last_service_date v s\<close> are the keys \<^verbatim>\<open>'last_service_km_' + s\<close> and
  \<^verbatim>\<open>'last_service_date_' + s\<close>.
\<close>

record service_info =
  interval_months :: int
  interval_km :: int
  cost_range :: "int \<times> int"

record multipliers =
  service_frequency :: float
  parts_wear :: float

record service_due =
  service :: string
  due_reason :: string
  days_overdue :: int
  due_cost_range :: "int \<times> int"
  parts :: "string list"

type_synonym schedules = "(string \<times> (string \<times> service_info) list) list"

definition SERVICE_SCHEDULES :: schedules where
  "SERVICE_SCHEDULES =
    [(''Car'',
       [(''General Service'', \<lparr>interval_months = 6, interval_km = 10000, cost_range = (2500, 5000)\<rparr>),
        (''Oil Change'', \<lparr>interval_months = 12, interval_km = 10000, cost_range = (2000, 3500)\<rparr>),
        (''Brake Service'', \<lparr>interval_months = 24, interval_km = 20000, cost_range = (3000, 8000)\<rparr>),
        (''Major Service'', \<lparr>interval_months = 24, interval_km = 40000, cost_range = (8000, 15000)\<rparr>),
        (''Tire Replacement'', \<lparr>interval_months = 48, interval_km = 50000, cost_range = (18000, 40000)\<rparr>)]),
     (''Bike'',
       [(''General Service'', \<lparr>interval_months = 3, interval_km = 3000, cost_range = (800, 1500)\<rparr>),
        (''Oil Change'', \<lparr>interval_months = 6, interval_km = 4000, cost_range = (500, 900)\<rparr>),
        (''Chain Service'', \<lparr>interval_months = 12, interval_km = 15000, cost_range = (1500, 3000)\<rparr>),
        (''Brake Pads'', \<lparr>interval_months = 12, interval_km = 10000, cost_range = (700, 1500)\<rparr>),
        (''Tire Replacement'', \<lparr>interval_months = 36, interval_km = 30000, cost_range = (4000, 8000)\<rparr>)]),
     (''Scooter'',
       [(''General Service'', \<lparr>interval_months = 4, interval_km = 4000, cost_range = (700, 1200)\<rparr>),
        (''Oil Change'', \<lparr>interval_months = 6, interval_km = 6000, cost_range = (400, 700)\<rparr>),
        (''Brake Service'', \<lparr>interval_months = 12, interval_km = 10000, cost_range = (600, 1200)\<rparr>),
        (''CVT & Transmission Service'', \<lparr>interval_months = 24, interval_km = 20000, cost_range = (1000, 2500)\<rparr>),
        (''Tire Replacement'', \<lparr>interval_months = 36, interval_km = 25000, cost_range = (3000, 6000)\<rparr>)])]"

definition SERVICE_PARTS :: "(string \<times> (string \<times> string list) list) list" where
  "SERVICE_PARTS =
    [(''Car'',
       [(''General Service'', [''Engine Oil'', ''Oil Filter'', ''Air Filter'', ''Coolant'', ''Wiper Fluid'']),
        (''Oil Change'', [''Engine Oil'', ''Oil Filter'']),
        (''Brake Service'', [''Brake Pads'', ''Brake Fluid'', ''Brake Discs'']),
        (''Major Service'', [''Engine Oil'', ''Oil Filter'', ''Air Filter'', ''Spark Plugs'', ''Fuel Filter'', ''Coolant'']),
        (''Tire Replacement'', [''Tires'', ''Wheel Alignment'', ''Wheel Balancing''])]),
     (''Bike'',
       [(''General Service'', [''Engine Oil'', ''Air Filter'', ''Chain Lubrication'', ''Brake Check'']),
        (''Oil Change'', [''Engine Oil'', ''Oil Filter'']),
        (''Chain Service'', [''Chain'', ''Front Sprocket'', ''Rear Sprocket'']),
        (''Brake Pads'', [''Front Brake Pads'', ''Rear Brake Pads'', ''Brake Fluid'']),
        (''Tire Replacement'', [''Front Tire'', ''Rear Tire'', ''Tube''])]),
     (''Scooter'',
       [(''General Service'', [''Engine Oil'', ''Air Filter'', ''Spark Plug'', ''Brake Check'']),
        (''Oil Change'', [''Engine Oil'']),
        (''Brake Service'', [''Brake Pads'', ''Brake Shoes'', ''Brake Fluid'']),
        (''CVT & Transmission Service'', [''CVT Belt'', ''Rollers'', ''Gear Oil'']),
        (''Tire Replacement'', [''Front Tire'', ''Rear Tire'', ''Tube''])])]"

definition USAGE_MULTIPLIERS :: "(string \<times> multipliers) list" where
  "USAGE_MULTIPLIERS =
    [(''City'', \<lparr>service_frequency = fl_round (12 / 10), parts_wear = fl_round (11 / 10)\<rparr>),
     (''Highway'', \<lparr>service_frequency = fl_round (9 / 10), parts_wear = fl_round (8 / 10)\<rparr>),
     (''Mixed'', \<lparr>service_frequency = fl_round 1, parts_wear = fl_round 1\<rparr>),
     (''Commercial'', \<lparr>service_frequency = fl_round (15 / 10), parts_wear = fl_round (14 / 10)\<rparr>)]"

subsection \<open>\<^verbatim>\<open>get_recommended_parts\<close>\<close>

text \<open>The list \<^verbatim>\<open>recommended_parts\<close> as the rules extend it, before deduplication.\<close>

definition recommended_parts :: "vehicle \<Rightarrow> string list" where
  "recommended_parts vehicle_data =
     (let km = get_or (current_km vehicle_data) 0;
          usg = get_or (usage vehicle_data) ''Mixed'';
          v_type = vtype vehicle_data
      in (if 50000 < km \<and> km \<le> 80000 then [''Brake Pads'', ''Tires''] else [])
       @ (if km > 80000 then [''Spark Plugs'', ''Suspension Components''] else [])
       @ (if usg = ''City'' then [''Brake Pads'', ''Air Filter'']
          else if usg = ''Commercial''
               then [''Engine Oil'', ''Brake Pads'', ''Suspension Components'', ''Tires'']
               else [])
       @ (if v_type = Some ''Car''
          then (if km > 80000 then [''Timing Belt''] else [])
             @ (if km > 100000 then [''Water Pump''] else [])
             @ (if usg = ''City'' then [''Clutch Assembly''] else [])
          else if v_type = Some ''Bike''
          then (if usg = ''City'' then [''Clutch Plates''] else [])
          else if v_type = Some ''Scooter''
          then (if 20000 < km \<and> km \<le> 40000 then [''CVT Belt''] else [])
          else []))"

text \<open>
  \<^verbatim>\<open>sorted(list(set(recommended_parts)))\<close>. The order in which Python enumerates a set
  of strings depends on the hash seed of the process; \<open>remdups\<close> is one such enumeration.
  Strings are compared code point by code point, a proper prefix being smaller, which is
  the lexicographic order on \<open>char list\<close>.
\<close>

definition get_recommended_parts :: "vehicle \<Rightarrow> string list" where
  "get_recommended_parts vehicle_data = sort (remdups (recommended_parts vehicle_data))"

subsection \<open>\<^verbatim>\<open>calculate_service_due\<close>\<close>

text \<open>\<^verbatim>\<open>USAGE_MULTIPLIERS.get(usage, USAGE_MULTIPLIERS['Mixed'])\<close>\<close>

definition usage_multiplier :: "string \<Rightarrow> error + multipliers" where
  "usage_multiplier usg =
     (case map_of USAGE_MULTIPLIERS ''Mixed'' of
        None \<Rightarrow> Inl (KeyError ''Mixed'')
      | Some mixed \<Rightarrow> Inr (get_or (map_of USAGE_MULTIPLIERS usg) mixed))"

text \<open>\<^verbatim>\<open>' & '.join(reason)\<close>\<close>

fun join :: "string \<Rightarrow> string list \<Rightarrow> string" where
  "join sep [] = []"
| "join sep [x] = x"
| "join sep (x # y # ys) = x @ sep @ join sep (y # ys)"

text \<open>\<^verbatim>\<open>int(interval / factor)\<close>, the interval adjusted by a multiplier of the usage.\<close>

definition adjusted_interval :: "int \<Rightarrow> float \<Rightarrow> error + int" where
  "adjusted_interval interval factor =
     (case int_truediv interval factor of Inl e \<Rightarrow> Inl e | Inr q \<Rightarrow> Inr (py_int q))"

text \<open>
  The body of the loop for one item of the schedule: \<open>Inr None\<close> when the service is not
  due, \<open>Inr (Some entry)\<close> when the entry is appended.
\<close>

definition check_service ::
  "date \<Rightarrow> vehicle \<Rightarrow> date \<Rightarrow> int \<Rightarrow> string \<Rightarrow> multipliers \<Rightarrow> string \<times> service_info
     \<Rightarrow> error + service_due option" where
  "check_service current_date vehicle_data purchase km vehicle_type multiplier item =
     (case item of (service_name, info) \<Rightarrow>
       (case adjusted_interval (interval_months info) (service_frequency multiplier) of
          Inl e \<Rightarrow> Inl e
        | Inr adjusted_interval_months \<Rightarrow>
           (case adjusted_interval (interval_km info) (parts_wear multiplier) of
              Inl e \<Rightarrow> Inl e
            | Inr adjusted_interval_km \<Rightarrow>
               (let last_time_service_km =
                      get_or (last_service_km vehicle_data service_name)
                             (get_or (initial_km vehicle_data) 0);
                    last_time_service_date =
                      get_or (last_service_date vehicle_data service_name) purchase;
                    km_since_last = km - last_time_service_km;
                    months_since_last =
                      fl_round (float_of_int (current_date - last_time_service_date)
                                / days_per_month);
                    time_due = (adjusted_interval_months > 0
                                \<and> of_int adjusted_interval_months \<le> months_since_last);
                    km_due = (adjusted_interval_km > 0
                              \<and> adjusted_interval_km \<le> km_since_last)
                in if time_due \<or> km_due
                   then (let overdue =
                               (if time_due
                                then current_date
                                     - (last_time_service_date
                                        + timedelta_days
                                            (int_mul_float adjusted_interval_months
                                               days_per_month))
                                else 0);
                             reason = (if time_due then [''Time Interval''] else [])
                                    @ (if km_due then [''Kilometer Reading''] else [])
                         in (case map_of SERVICE_PARTS vehicle_type of
                               None \<Rightarrow> Inl (KeyError vehicle_type)
                             | Some type_parts \<Rightarrow>
                                 Inr (Some \<lparr>service = service_name,
                                            due_reason = join '' & '' reason,
                                            days_overdue = max 0 overdue,
                                            due_cost_range = cost_range info,
                                            parts = get_or (map_of type_parts service_name) []\<rparr>)))
                   else Inr None))))"

text \<open>The \<^verbatim>\<open>for\<close> loop over the items of the schedule, appending to \<^verbatim>\<open>services_due\<close>.\<close>

fun due_loop ::
  "('i \<Rightarrow> error + service_due option) \<Rightarrow> 'i list \<Rightarrow> service_due list
     \<Rightarrow> error + service_due list" where
  "due_loop body [] services_due = Inr services_due"
| "due_loop body (item # items) services_due =
     (case body item of
        Inl e \<Rightarrow> Inl e
      | Inr None \<Rightarrow> due_loop body items services_due
      | Inr (Some entry) \<Rightarrow> due_loop body items (services_due @ [entry]))"

text \<open>
  The function with the table \<^verbatim>\<open>SERVICE_SCHEDULES\<close> and the value of
  \<^verbatim>\<open>datetime.date.today()\<close> as arguments.
\<close>

definition service_due_in :: "schedules \<Rightarrow> date \<Rightarrow> vehicle \<Rightarrow> error + service_due list" where
  "service_due_in table current_date vehicle_data =
     (case purchase_date vehicle_data of
        None \<Rightarrow> Inl (KeyError ''purchase_date'')
      | Some purchase \<Rightarrow>
         (let km = get_or (current_km vehicle_data) 0;
              usg = get_or (usage vehicle_data) ''Mixed''
          in (case vtype vehicle_data of
                None \<Rightarrow> Inl (KeyError ''type'')
              | Some vehicle_type \<Rightarrow>
                 (case usage_multiplier usg of
                    Inl e \<Rightarrow> Inl e
                  | Inr multiplier \<Rightarrow>
                     (case map_of table vehicle_type of
                        None \<Rightarrow> Inr []
                      | Some schedule \<Rightarrow>
                          due_loop
                            (check_service current_date vehicle_data purchase km
                               vehicle_type multiplier)
                            schedule [])))))"

definition calculate_service_due :: "date \<Rightarrow> vehicle \<Rightarrow> error + service_due list" where
  "calculate_service_due current_date vehicle_data =
     service_due_in SERVICE_SCHEDULES current_date vehicle_data"

subsection \<open>The session state and the Add Vehicle form\<close>

text \<open>
  The keys of \<^verbatim>\<open>st.session_state\<close> that the program assigns: the list of vehicle
  records, the memo of summaries and the three selectors that sit outside the form.
\<close>

record session_state =
  vehicles :: "vehicle list"
  parts_cache :: "string \<Rightarrow> string option"
  vehicle_type_selector :: string
  brand_selector :: string
  model_selector :: string

text \<open>The values of the widgets inside the form and the state of its submit button.\<close>

record vehicle_form =
  form_year :: int
  form_purchase_date :: date
  form_price :: int
  form_current_km :: int
  form_usage :: string
  submitted :: bool

definition new_vehicle :: "session_state \<Rightarrow> vehicle_form \<Rightarrow> vehicle" where
  "new_vehicle st form =
     \<lparr>vtype = Some (vehicle_type_selector st),
      brand = Some (brand_selector st),
      model = Some (model_selector st),
      year = Some (form_year form),
      purchase_date = Some (form_purchase_date form),
      price = Some (form_price form),
      current_km = Some (form_current_km form),
      initial_km = Some (form_current_km form),
      usage = Some (form_usage form),
      last_service_km = (\<lambda>service_name. None),
      last_service_date = (\<lambda>service_name. None)\<rparr>"

text \<open>The block under \<^verbatim>\<open>if submitted:\<close>; the list is extended in place.\<close>

definition add_vehicle_form :: "vehicle_form \<Rightarrow> session_state \<Rightarrow> session_state" where
  "add_vehicle_form form st =
     (if submitted form
      then st\<lparr>vehicles := vehicles st @ [new_vehicle st form]\<rparr>
      else st)"

subsection \<open>\<^verbatim>\<open>get_wikimedia_summary\<close>\<close>

text \<open>
  The answer of \<^verbatim>\<open>requests.get\<close> followed by \<^verbatim>\<open>raise_for_status\<close> and
  \<^verbatim>\<open>json\<close>: an exception of the class \<^verbatim>\<open>RequestException\<close> with its message, or
  the decoded body. Of the body only \<^verbatim>\<open>data['query']['pages']\<close> is read: \<open>None\<close>
  is a body without that path, otherwise the pages in key order, each with its
  \<^verbatim>\<open>'extract'\<close> when it has one.
\<close>

type_synonym pages = "(string \<times> string option) list"

datatype http_result =
    RequestException string
  | Json "pages option"

text \<open>The network is a parameter: the answer to a request for a title at an address.\<close>

type_synonym network = "string \<Rightarrow> string \<Rightarrow> http_result"

text \<open>\<^verbatim>\<open>re.sub(r'\n+', '\n', summary)\<close>: every run of line feeds becomes one line feed.\<close>

fun collapse_newlines :: "string \<Rightarrow> string" where
  "collapse_newlines (a # b # cs) =
     (if a = CHR 0x0A \<and> b = CHR 0x0A then collapse_newlines (b # cs)
      else a # collapse_newlines (b # cs))"
| "collapse_newlines cs = cs"

text \<open>
  \<^verbatim>\<open>str.strip()\<close> removes leading and trailing whitespace. The whitespace characters
  below are those of ASCII; the whitespace of Unicode beyond ASCII is not modelled.
\<close>

definition is_space :: "char \<Rightarrow> bool" where
  "is_space c \<longleftrightarrow>
     c \<in> set [CHR 0x09, CHR 0x0A, CHR 0x0B, CHR 0x0C, CHR 0x0D,
              CHR 0x1C, CHR 0x1D, CHR 0x1E, CHR 0x1F, CHR 0x20]"

definition strip :: "string \<Rightarrow> string" where
  "strip s = rev (dropWhile is_space (rev (dropWhile is_space s)))"

definition clean_summary :: "string \<Rightarrow> string" where
  "clean_summary extract = strip (collapse_newlines extract)"

definition base_url :: "(string \<times> string) list" where
  "base_url =
     [(''wikipedia'', ''https://en.wikipedia.org/w/api.php''),
      (''wikibooks'', ''https://en.wikibooks.org/w/api.php'')]"

definition cache_key_of :: "string \<Rightarrow> string \<Rightarrow> string" where
  "cache_key_of project title = project @ ''_'' @ title"

text \<open>
  One call: what it returns or raises, the session state afterwards and the requests it
  sent, each an address with a title.
\<close>

record summary_call =
  returned :: "error + string"
  state_after :: session_state
  requests_sent :: "(string \<times> string) list"

definition get_wikimedia_summary ::
  "network \<Rightarrow> session_state \<Rightarrow> string option \<Rightarrow> string \<Rightarrow> summary_call" where
  "get_wikimedia_summary http_get st title project =
     (case title of
        None \<Rightarrow>
          \<lparr>returned = Inr ''No relevant article found.'', state_after = st, requests_sent = []\<rparr>
      | Some ttl \<Rightarrow>
         (if ttl = []
          then \<lparr>returned = Inr ''No relevant article found.'', state_after = st,
                 requests_sent = []\<rparr>
          else
           (let cache_key = cache_key_of project ttl
            in (case parts_cache st cache_key of
                  Some summary \<Rightarrow>
                    \<lparr>returned = Inr summary, state_after = st, requests_sent = []\<rparr>
                | None \<Rightarrow>
                   (let api_url = get_or (map_of base_url project) ''wikipedia''
                    in (case http_get api_url ttl of
                          RequestException e \<Rightarrow>
                            \<lparr>returned = Inr (''Network error retrieving information: '' @ e),
                             state_after = st, requests_sent = [(api_url, ttl)]\<rparr>
                        | Json None \<Rightarrow>
                            \<lparr>returned = Inl (KeyError ''query''),
                             state_after = st, requests_sent = [(api_url, ttl)]\<rparr>
                        | Json (Some []) \<Rightarrow>
                            \<lparr>returned = Inl IndexError,
                             state_after = st, requests_sent = [(api_url, ttl)]\<rparr>
                        | Json (Some ((page_id, extract) # others)) \<Rightarrow>
                           (if page_id \<noteq> ''-1'' \<and> extract \<noteq> None \<and> extract \<noteq> Some []
                            then (let summary = clean_summary (the extract)
                                  in \<lparr>returned = Inr summary,
                                      state_after =
                                        st\<lparr>parts_cache := (parts_cache st)(cache_key \<mapsto> summary)\<rparr>,
                                      requests_sent = [(api_url, ttl)]\<rparr>)
                            else \<lparr>returned = Inr ''Information not available.'',
                                  state_after = st,
                                  requests_sent = [(api_url, ttl)]\<rparr>)))))))"

text \<open>A sequence of calls, each on the state that the previous one left.\<close>

fun summary_calls ::
  "network \<Rightarrow> session_state \<Rightarrow> (string option \<times> string) list \<Rightarrow> session_state" where
  "summary_calls http_get st [] = st"
| "summary_calls http_get st ((title, project) # calls) =
     summary_calls http_get (state_after (get_wikimedia_summary http_get st title project)) calls"

subsection \<open>The claims in the words of the specification\<close>

text \<open>
  The multipliers as the decimal numbers of the table \<^verbatim>\<open>USAGE_MULTIPLIERS\<close>, service
  frequency first; a usage outside the table counts as \<^verbatim>\<open>'Mixed'\<close>.
\<close>

definition spec_multipliers :: "string \<Rightarrow> rat \<times> rat" where
  "spec_multipliers u =
     (if u = ''City'' then (12 / 10, 11 / 10)
      else if u = ''Highway'' then (9 / 10, 8 / 10)
      else if u = ''Commercial'' then (15 / 10, 14 / 10)
      else (1, 1))"

text \<open>An interval divided by a multiplier in exact arithmetic, truncated to an integer.\<close>

definition spec_adjusted :: "int \<Rightarrow> rat \<Rightarrow> int" where
  "spec_adjusted interval factor = py_int (of_int interval / factor)"

text \<open>The kilometer and usage rules of the part recommendation, rule by rule.\<close>

definition km_within :: "vehicle \<Rightarrow> int \<Rightarrow> int \<Rightarrow> bool" where
  "km_within v lo hi =
     (case current_km v of None \<Rightarrow> False | Some km \<Rightarrow> lo < km \<and> km \<le> hi)"

definition km_above :: "vehicle \<Rightarrow> int \<Rightarrow> bool" where
  "km_above v lo = (case current_km v of None \<Rightarrow> False | Some km \<Rightarrow> lo < km)"

definition spec_selected_parts :: "vehicle \<Rightarrow> string set" where
  "spec_selected_parts v =
       (if km_within v 50000 80000 then {''Brake Pads'', ''Tires''} else {})
     \<union> (if km_above v 80000 then {''Spark Plugs'', ''Suspension Components''} else {})
     \<union> (if usage v = Some ''City'' then {''Brake Pads'', ''Air Filter''} else {})
     \<union> (if usage v = Some ''City'' \<and> vtype v = Some ''Car'' then {''Clutch Assembly''} else {})
     \<union> (if usage v = Some ''City'' \<and> vtype v = Some ''Bike'' then {''Clutch Plates''} else {})
     \<union> (if usage v = Some ''Commercial''
        then {''Engine Oil'', ''Brake Pads'', ''Suspension Components'', ''Tires''} else {})
     \<union> (if vtype v = Some ''Car'' \<and> km_above v 80000 then {''Timing Belt''} else {})
     \<union> (if vtype v = Some ''Car'' \<and> km_above v 100000 then {''Water Pump''} else {})
     \<union> (if vtype v = Some ''Scooter'' \<and> km_within v 20000 40000 then {''CVT Belt''} else {})"

subsection \<open>Example inputs\<close>

text \<open>
  A city car bought on 2021-06-01 (ordinal 737942) with 12000 kilometers on the odometer,
  entered through the form, and the state before and after.
\<close>

definition example_form :: vehicle_form where
  "example_form =
     \<lparr>form_year = 2021, form_purchase_date = 737942, form_price = 750000,
      form_current_km = 12000, form_usage = ''City'', submitted = True\<rparr>"

definition example_state :: session_state where
  "example_state =
     \<lparr>vehicles = [], parts_cache = Map.empty, vehicle_type_selector = ''Car'',
      brand_selector = ''Maruti Suzuki'', model_selector = ''Swift''\<rparr>"

definition example_vehicle :: vehicle where
  "example_vehicle = new_vehicle example_state example_form"

text \<open>The same car after its odometer was updated to 22000 kilometers.\<close>

definition example_vehicle_driven :: vehicle where
  "example_vehicle_driven = example_vehicle\<lparr>current_km := Some 22000\<rparr>"

text \<open>A network that answers every request with one page whose extract needs cleaning.\<close>

definition example_network :: network where
  "example_network url title =
     Json (Some [(''736'', Some [CHR 0x20, CHR ''A'', CHR 0x0A, CHR 0x0A, CHR ''b'', CHR 0x0A])])"

definition example_cached_state :: session_state where
  "example_cached_state =
     example_state\<lparr>parts_cache := [''wikipedia_Brake pad'' \<mapsto> ''A brake pad.'']\<rparr>"

text \<open>
  A network that answers with the page id \<^verbatim>\<open>'-1'\<close>, the id of a missing page, and
  an extract all the same.
\<close>

definition missing_page_network :: network where
  "missing_page_network url title = Json (Some [(''-1'', Some ''A brake pad.'')])"

section \<open>Proofs\<close>

subsection \<open>The rounding function\<close>

text \<open>
  The exponent that \<open>ilog2\<close> computes is the binary exponent of its argument, and
  \<open>fl_round\<close> moves a number by at most half a unit in the last place.
\<close>

lemma bitlen_floor_bounds:
  fixes y :: rat
  assumes "1 \<le> y"
  shows "2 ^ nat (bitlen \<lfloor>y\<rfloor> - 1) \<le> y" and "y < 2 ^ nat (bitlen \<lfloor>y\<rfloor>)"
    and "1 \<le> bitlen \<lfloor>y\<rfloor>"
proof -
  let ?n = "\<lfloor>y\<rfloor>"
  from assms have n: "0 < ?n" by simp
  from bitlen_bounds [OF n] have lo: "2 ^ nat (bitlen ?n - 1) \<le> ?n"
    and hi: "?n < 2 ^ nat (bitlen ?n)"
    by auto
  from lo have "(of_int (2 ^ nat (bitlen ?n - 1)) :: rat) \<le> of_int ?n"
    by (simp only: of_int_le_iff)
  also have "\<dots> \<le> y" by simp
  finally show "2 ^ nat (bitlen ?n - 1) \<le> y" by simp
  from hi have "?n + 1 \<le> 2 ^ nat (bitlen ?n)" by simp
  then have "(of_int (?n + 1) :: rat) \<le> of_int (2 ^ nat (bitlen ?n))"
    by (simp only: of_int_le_iff)
  moreover have "y < of_int (?n + 1)" by linarith
  ultimately show "y < 2 ^ nat (bitlen ?n)" by simp
  from n show "1 \<le> bitlen ?n"
    using bitlen_eq_zero_iff [of ?n] bitlen_nonneg [of ?n] by linarith
qed

lemma ilog2_bounds:
  assumes "0 < x"
  shows "pow2 (ilog2 x) \<le> x \<and> x < pow2 (ilog2 x + 1)"
proof (cases "1 \<le> x")
  case True
  from bitlen_floor_bounds [OF True] have
    lo: "2 ^ nat (bitlen \<lfloor>x\<rfloor> - 1) \<le> x" and hi: "x < 2 ^ nat (bitlen \<lfloor>x\<rfloor>)"
    and pos: "1 \<le> bitlen \<lfloor>x\<rfloor>"
    by auto
  from pos have "nat (bitlen \<lfloor>x\<rfloor> - 1 + 1) = nat (bitlen \<lfloor>x\<rfloor>)" by simp
  with True lo hi pos show ?thesis
    by (simp add: ilog2_def pow2_def)
next
  case False
  let ?y = "1 / x"
  let ?j = "bitlen \<lfloor>?y\<rfloor> - 1"
  from False assms have y: "1 \<le> ?y" by simp
  from bitlen_floor_bounds [OF y] have
    lo: "2 ^ nat ?j \<le> ?y" and hi: "?y < 2 ^ nat (bitlen \<lfloor>?y\<rfloor>)"
    and pos: "0 \<le> ?j"
    by auto
  from pos have suc: "nat (bitlen \<lfloor>?y\<rfloor>) = Suc (nat ?j)" by simp
  from lo assms have upper: "x * 2 ^ nat ?j \<le> 1"
    by (simp add: field_simps)
  from hi assms have lower: "1 < x * 2 ^ Suc (nat ?j)"
    unfolding suc by (simp add: field_simps)
  show ?thesis
  proof (cases "x * 2 ^ nat ?j = 1")
    case True
    then have x: "x = 1 / 2 ^ nat ?j"
      by (simp add: field_simps)
    from True False have j: "0 < ?j"
      by (cases "?j = 0") (use pos in auto)
    then have "nat (- (- ?j + 1)) = nat ?j - 1" and "0 < nat ?j" by simp_all
    then have "pow2 (- ?j + 1) = 2 / 2 ^ nat ?j"
      using j by (cases "nat ?j") (simp_all add: pow2_def)
    moreover have "pow2 (- ?j) = 1 / 2 ^ nat ?j"
      using j by (simp add: pow2_def)
    moreover have "ilog2 x = - ?j"
      using True False by (simp add: ilog2_def Let_def)
    ultimately have "pow2 (ilog2 x) = x" and "pow2 (ilog2 x + 1) = 2 * x"
      using x by simp_all
    with assms show ?thesis
      by simp
  next
    case neq: False
    have il: "ilog2 x = - ?j - 1"
      using neq False by (simp add: ilog2_def Let_def)
    have "- (- ?j - 1) = bitlen \<lfloor>?y\<rfloor>" and "\<not> 0 \<le> - ?j - 1"
      using pos by simp_all
    then have a: "pow2 (- ?j - 1) = 1 / 2 ^ Suc (nat ?j)"
      by (simp only: pow2_def suc if_False)
    have b: "pow2 (- ?j - 1 + 1) = 1 / 2 ^ nat ?j"
      using pos by (cases "?j = 0") (simp_all add: pow2_def)
    from lower have "1 / 2 ^ Suc (nat ?j) < x"
      by (simp add: field_simps)
    moreover from upper neq have "x * 2 ^ nat ?j < 1" by simp
    then have "x < 1 / 2 ^ nat ?j"
      by (simp add: field_simps)
    ultimately show ?thesis
      unfolding il a b by simp
  qed
qed

lemma round_half_even_error: "\<bar>of_int (round_half_even y) - y\<bar> \<le> 1 / 2"
  by (auto simp: round_half_even_def Let_def abs_if) linarith+

lemma pow2_pos: "0 < pow2 k"
  by (simp add: pow2_def)

text \<open>The rounded value is within half a unit in the last place of the exact one.\<close>

lemma fl_round_error:
  assumes "x \<noteq> 0"
  shows "\<bar>fl_round x - x\<bar> \<le> pow2 (ilog2 \<bar>x\<bar> - 52) / 2"
proof -
  let ?u = "pow2 (ilog2 \<bar>x\<bar> - 52)"
  have u: "0 < ?u" by (rule pow2_pos)
  have "fl_round x - x = (of_int (round_half_even (x / ?u)) - x / ?u) * ?u"
    using assms u by (simp add: fl_round_def Let_def field_simps)
  then have "\<bar>fl_round x - x\<bar> = \<bar>of_int (round_half_even (x / ?u)) - x / ?u\<bar> * ?u"
    using u by (simp add: abs_mult)
  also have "\<dots> \<le> (1 / 2) * ?u"
    using round_half_even_error [of "x / ?u"] u by (intro mult_right_mono) simp_all
  finally show ?thesis by simp
qed

subsection \<open>Evaluation of binary64 arithmetic on numerals\<close>

lemma bitlen_numeral [simp]:
  "bitlen 1 = 1"
  "bitlen (numeral Num.One) = 1"
  "bitlen (numeral (Num.Bit0 k)) = bitlen (numeral k) + 1"
  "bitlen (numeral (Num.Bit1 k)) = bitlen (numeral k) + 1"
  by (subst compute_bitlen, simp)+

lemma floor_rat_numeral [simp]:
  "\<lfloor>(numeral a :: rat) / numeral b\<rfloor> = numeral a div numeral b"
  "\<lfloor>- (numeral a :: rat) / numeral b\<rfloor> = - numeral a div numeral b"
  "\<lfloor>- ((numeral a :: rat) / numeral b)\<rfloor> = - numeral a div numeral b"
  "\<lfloor>(1 :: rat) / numeral b\<rfloor> = 1 div numeral b"
  using floor_divide_of_int_eq [of "numeral a" "numeral b", where ?'a = rat]
        floor_divide_of_int_eq [of "- numeral a" "numeral b", where ?'a = rat]
        floor_divide_of_int_eq [of "1" "numeral b", where ?'a = rat]
  by simp_all

lemmas fl_eval = fl_round_def ilog2_def pow2_def round_half_even_def

lemma float_literals:
  "fl_round (12 / 10) = 5404319552844595 / 4503599627370496"
  "fl_round (11 / 10) = 2476979795053773 / 2251799813685248"
  "fl_round (9 / 10) = 8106479329266893 / 9007199254740992"
  "fl_round (8 / 10) = 3602879701896397 / 4503599627370496"
  "fl_round 1 = 1"
  "fl_round (15 / 10) = 3 / 2"
  "fl_round (14 / 10) = 3152519739159347 / 2251799813685248"
  by (simp_all add: fl_eval)

lemma days_per_month_eq: "days_per_month = 8568098291072369 / 281474976710656"
  by (simp add: days_per_month_def fl_eval)

lemma usage_multiplier_eq:
  "usage_multiplier u =
     Inr (if u = ''City''
          then \<lparr>service_frequency = fl_round (12 / 10), parts_wear = fl_round (11 / 10)\<rparr>
          else if u = ''Highway''
          then \<lparr>service_frequency = fl_round (9 / 10), parts_wear = fl_round (8 / 10)\<rparr>
          else if u = ''Commercial''
          then \<lparr>service_frequency = fl_round (15 / 10), parts_wear = fl_round (14 / 10)\<rparr>
          else \<lparr>service_frequency = fl_round 1, parts_wear = fl_round 1\<rparr>)"
  by (simp add: usage_multiplier_def USAGE_MULTIPLIERS_def get_or_def)

lemma schedule_member:
  "map_of SERVICE_SCHEDULES t = Some sched \<Longrightarrow> (t, sched) \<in> set SERVICE_SCHEDULES"
  by (rule map_of_SomeD)

lemma schedule_keys:
  "\<forall>(t, sched) \<in> set SERVICE_SCHEDULES.
     distinct (map fst sched) \<and> map_of SERVICE_PARTS t \<noteq> None"
  by (simp add: SERVICE_SCHEDULES_def SERVICE_PARTS_def)

lemma due_loop_source:
  "due_loop body items acc = Inr r \<Longrightarrow> e \<in> set r
     \<Longrightarrow> e \<in> set acc \<or> (\<exists>i \<in> set items. body i = Inr (Some e))"
proof (induction items arbitrary: acc)
  case Nil
  then show ?case by simp
next
  case (Cons i items)
  show ?case
  proof (cases "body i")
    case (Inl x)
    with Cons.prems show ?thesis by simp
  next
    case (Inr o1)
    show ?thesis
    proof (cases o1)
      case None
      with Inr Cons.prems Cons.IH [of acc] show ?thesis by auto
    next
      case (Some entry)
      with Inr Cons.prems Cons.IH [of "acc @ [entry]"] show ?thesis by auto
    qed
  qed
qed

lemma due_loop_total:
  assumes "\<forall>i \<in> set items. \<exists>r. body i = Inr r"
  shows "due_loop body items acc =
           Inr (acc @ List.map_filter (\<lambda>i. case body i of Inl e \<Rightarrow> None | Inr r \<Rightarrow> r) items)"
  using assms
proof (induction items arbitrary: acc)
  case Nil
  then show ?case by simp
next
  case (Cons i items)
  then obtain r where r: "body i = Inr r" by auto
  from Cons have IH: "\<And>acc. due_loop body items acc =
           Inr (acc @ List.map_filter (\<lambda>i. case body i of Inl e \<Rightarrow> None | Inr r \<Rightarrow> r) items)"
    by simp
  show ?case
    by (cases r) (simp_all add: r IH)
qed

lemma check_service_ok:
  assumes am: "adjusted_interval (interval_months info) (service_frequency m) = Inr am"
      and ak: "adjusted_interval (interval_km info) (parts_wear m) = Inr ak"
      and tp: "map_of SERVICE_PARTS t = Some tp"
  shows "\<exists>r. check_service today v pd km t m (s, info) = Inr r
           \<and> (r \<noteq> None \<longleftrightarrow>
                 (0 < am \<and> of_int am
                    \<le> fl_round (float_of_int (today - get_or (last_service_date v s) pd)
                                / days_per_month))
               \<or> (0 < ak \<and> ak \<le> km - get_or (last_service_km v s) (get_or (initial_km v) 0)))
           \<and> (\<forall>e. r = Some e \<longrightarrow> service e = s)"
  by (simp add: check_service_def am ak tp Let_def)

lemma check_service_entry:
  assumes "check_service today v pd km t m (s, info) = Inr (Some e)"
  shows "service e = s \<and> 0 \<le> days_overdue e"
  using assms
  by (auto simp: check_service_def Let_def split: sum.splits option.splits if_splits)

lemma check_service_km_only:
  assumes "check_service today v pd km t m (s, info) = Inr (Some e)"
      and "adjusted_interval (interval_months info) (service_frequency m) = Inr am"
      and "\<not> (0 < am \<and> of_int am
                    \<le> fl_round (float_of_int (today - get_or (last_service_date v s) pd)
                                / days_per_month))"
  shows "days_overdue e = 0 \<and> due_reason e = ''Kilometer Reading''"
  using assms
  by (auto simp: check_service_def Let_def split: sum.splits option.splits if_splits)

subsection \<open>The adjusted intervals of the schedules\<close>

lemmas adj_eval = adjusted_interval_def int_truediv_def float_of_int_def py_int_def

lemma adjusted_city_months:
  "\<forall>(t, sched) \<in> set SERVICE_SCHEDULES. \<forall>(name, info) \<in> set sched.
     adjusted_interval (interval_months info) (fl_round (12 / 10))
       = Inr (spec_adjusted (interval_months info) (12 / 10))
     \<and> 0 < spec_adjusted (interval_months info) (12 / 10)"
  by (simp add: SERVICE_SCHEDULES_def float_literals adj_eval spec_adjusted_def fl_eval)

lemma adjusted_city_km:
  "\<forall>(t, sched) \<in> set SERVICE_SCHEDULES. \<forall>(name, info) \<in> set sched.
     adjusted_interval (interval_km info) (fl_round (11 / 10))
       = Inr (spec_adjusted (interval_km info) (11 / 10))
     \<and> 0 < spec_adjusted (interval_km info) (11 / 10)"
  by (simp add: SERVICE_SCHEDULES_def float_literals adj_eval spec_adjusted_def fl_eval)

lemma adjusted_highway_months:
  "\<forall>(t, sched) \<in> set SERVICE_SCHEDULES. \<forall>(name, info) \<in> set sched.
     adjusted_interval (interval_months info) (fl_round (9 / 10))
       = Inr (spec_adjusted (interval_months info) (9 / 10))
     \<and> 0 < spec_adjusted (interval_months info) (9 / 10)"
  by (simp add: SERVICE_SCHEDULES_def float_literals adj_eval spec_adjusted_def fl_eval)

lemma adjusted_highway_km:
  "\<forall>(t, sched) \<in> set SERVICE_SCHEDULES. \<forall>(name, info) \<in> set sched.
     adjusted_interval (interval_km info) (fl_round (8 / 10))
       = Inr (spec_adjusted (interval_km info) (8 / 10))
     \<and> 0 < spec_adjusted (interval_km info) (8 / 10)"
  by (simp add: SERVICE_SCHEDULES_def float_literals adj_eval spec_adjusted_def fl_eval)

lemma adjusted_mixed_months:
  "\<forall>(t, sched) \<in> set SERVICE_SCHEDULES. \<forall>(name, info) \<in> set sched.
     adjusted_interval (interval_months info) (fl_round (1))
       = Inr (spec_adjusted (interval_months info) (1))
     \<and> 0 < spec_adjusted (interval_months info) (1)"
  by (simp add: SERVICE_SCHEDULES_def float_literals adj_eval spec_adjusted_def fl_eval)

lemma adjusted_mixed_km:
  "\<forall>(t, sched) \<in> set SERVICE_SCHEDULES. \<forall>(name, info) \<in> set sched.
     adjusted_interval (interval_km info) (fl_round (1))
       = Inr (spec_adjusted (interval_km info) (1))
     \<and> 0 < spec_adjusted (interval_km info) (1)"
  by (simp add: SERVICE_SCHEDULES_def float_literals adj_eval spec_adjusted_def fl_eval)

lemma adjusted_commercial_months:
  "\<forall>(t, sched) \<in> set SERVICE_SCHEDULES. \<forall>(name, info) \<in> set sched.
     adjusted_interval (interval_months info) (fl_round (15 / 10))
       = Inr (spec_adjusted (interval_months info) (15 / 10))
     \<and> 0 < spec_adjusted (interval_months info) (15 / 10)"
  by (simp add: SERVICE_SCHEDULES_def float_literals adj_eval spec_adjusted_def fl_eval)

lemma adjusted_commercial_km:
  "\<forall>(t, sched) \<in> set SERVICE_SCHEDULES. \<forall>(name, info) \<in> set sched.
     adjusted_interval (interval_km info) (fl_round (14 / 10))
       = Inr (spec_adjusted (interval_km info) (14 / 10))
     \<and> 0 < spec_adjusted (interval_km info) (14 / 10)"
  by (simp add: SERVICE_SCHEDULES_def float_literals adj_eval spec_adjusted_def fl_eval)


lemma adjusted_interval_exact:
  assumes "(t, sched) \<in> set SERVICE_SCHEDULES" and "(name, info) \<in> set sched"
  shows "\<exists>m. usage_multiplier u = Inr m
           \<and> adjusted_interval (interval_months info) (service_frequency m)
               = Inr (spec_adjusted (interval_months info) (fst (spec_multipliers u)))
           \<and> adjusted_interval (interval_km info) (parts_wear m)
               = Inr (spec_adjusted (interval_km info) (snd (spec_multipliers u)))
           \<and> 0 < spec_adjusted (interval_months info) (fst (spec_multipliers u))
           \<and> 0 < spec_adjusted (interval_km info) (snd (spec_multipliers u))"
  using assms
    adjusted_city_months adjusted_city_km adjusted_highway_months adjusted_highway_km
    adjusted_mixed_months adjusted_mixed_km adjusted_commercial_months adjusted_commercial_km
  by (fastforce simp: usage_multiplier_eq spec_multipliers_def)

subsection \<open>The claims about \<^verbatim>\<open>calculate_service_due\<close>\<close>

lemma set_map_filter:
  "set (List.map_filter f xs) = {y. \<exists>x \<in> set xs. f x = Some y}"
  by (induction xs) (auto split: option.splits)

text \<open>
  Claim C1. For a vehicle record with a purchase date whose type is a key of
  \<^verbatim>\<open>SERVICE_SCHEDULES\<close> and for a service \<open>s\<close> of that type's schedule,
  \<^verbatim>\<open>calculate_service_due\<close> returns a list, and \<open>s\<close> is the service of one of its
  entries if and only if the adjusted month interval is positive and at most the days
  since the last service date divided by 30.44, or the adjusted kilometer interval is
  positive and at most the kilometers since the last service reading. The last service
  date defaults to the purchase date, the last service reading to \<^verbatim>\<open>initial_km\<close>, and
  the adjusted intervals are those of the usage, in exact arithmetic.
\<close>

theorem service_due_iff:
  fixes v :: vehicle
  defines "u \<equiv> get_or (usage v) ''Mixed''"
  assumes t: "vtype v = Some t"
      and sched: "map_of SERVICE_SCHEDULES t = Some sched"
      and item: "(s, info) \<in> set sched"
      and pd: "purchase_date v = Some pd"
  shows "\<exists>due. calculate_service_due today v = Inr due \<and>
     (s \<in> service ` set due \<longleftrightarrow>
        (0 < spec_adjusted (interval_months info) (fst (spec_multipliers u))
         \<and> of_int (spec_adjusted (interval_months info) (fst (spec_multipliers u)))
             \<le> fl_round (float_of_int (today - get_or (last_service_date v s) pd)
                         / days_per_month))
      \<or> (0 < spec_adjusted (interval_km info) (snd (spec_multipliers u))
         \<and> spec_adjusted (interval_km info) (snd (spec_multipliers u))
             \<le> get_or (current_km v) 0
                - get_or (last_service_km v s) (get_or (initial_km v) 0)))"
proof -
  let ?km = "get_or (current_km v) 0"
  let ?due = "\<lambda>s info.
        (0 < spec_adjusted (interval_months info) (fst (spec_multipliers u))
         \<and> of_int (spec_adjusted (interval_months info) (fst (spec_multipliers u)))
             \<le> fl_round (float_of_int (today - get_or (last_service_date v s) pd)
                         / days_per_month))
      \<or> (0 < spec_adjusted (interval_km info) (snd (spec_multipliers u))
         \<and> spec_adjusted (interval_km info) (snd (spec_multipliers u))
             \<le> ?km - get_or (last_service_km v s) (get_or (initial_km v) 0))"
  from sched have mem: "(t, sched) \<in> set SERVICE_SCHEDULES"
    by (rule schedule_member)
  with schedule_keys have dist: "distinct (map fst sched)"
    and "map_of SERVICE_PARTS t \<noteq> None"
    by auto
  then obtain tp where tp: "map_of SERVICE_PARTS t = Some tp"
    by auto
  obtain m where m: "usage_multiplier u = Inr m"
    using adjusted_interval_exact [OF mem item] by blast
  let ?body = "check_service today v pd ?km t m"
  have body: "\<exists>r. ?body (s', info') = Inr r \<and> (r \<noteq> None \<longleftrightarrow> ?due s' info')
                \<and> (\<forall>e. r = Some e \<longrightarrow> service e = s')"
    if "(s', info') \<in> set sched" for s' info'
  proof -
    from adjusted_interval_exact [OF mem that, of u] m
    have "adjusted_interval (interval_months info') (service_frequency m)
            = Inr (spec_adjusted (interval_months info') (fst (spec_multipliers u)))"
      and "adjusted_interval (interval_km info') (parts_wear m)
            = Inr (spec_adjusted (interval_km info') (snd (spec_multipliers u)))"
      by auto
    from check_service_ok [OF this tp] show ?thesis .
  qed
  then have total: "\<forall>i \<in> set sched. \<exists>r. ?body i = Inr r"
    by fastforce
  let ?f = "\<lambda>i. case ?body i of Inl e \<Rightarrow> None | Inr r \<Rightarrow> r"
  have run: "calculate_service_due today v = Inr (List.map_filter ?f sched)"
    using due_loop_total [OF total, of "[]"]
    by (simp add: calculate_service_due_def service_due_in_def pd t m [unfolded u_def] sched)
  have "s \<in> service ` set (List.map_filter ?f sched) \<longleftrightarrow> ?due s info"
  proof
    assume "s \<in> service ` set (List.map_filter ?f sched)"
    then obtain e i where i: "i \<in> set sched" and e: "?f i = Some e" and s: "service e = s"
      by (auto simp: set_map_filter)
    obtain s' info' where [simp]: "i = (s', info')" by (cases i)
    from body [of s' info'] i e s have "s' = s" and "?due s' info'"
      by (auto split: sum.splits)
    moreover from dist i item \<open>s' = s\<close> have "info' = info"
      by (auto dest: eq_key_imp_eq_value)
    ultimately show "?due s info" by simp
  next
    assume "?due s info"
    with body [OF item] obtain e where "?body (s, info) = Inr (Some e)" and "service e = s"
      by auto
    with item show "s \<in> service ` set (List.map_filter ?f sched)"
      by (force simp: set_map_filter)
  qed
  with run show ?thesis by blast
qed



text \<open>
  Claim C4. For every type and service of \<^verbatim>\<open>SERVICE_SCHEDULES\<close> and every usage of
  \<^verbatim>\<open>USAGE_MULTIPLIERS\<close>, both adjusted intervals are computed without error and are
  positive, so the positivity guards of the time check and of the kilometer check never
  change the outcome of the comparison.
\<close>

theorem adjusted_intervals_positive:
  assumes "(t, sched) \<in> set SERVICE_SCHEDULES"
      and "(name, info) \<in> set sched"
      and "(u, m) \<in> set USAGE_MULTIPLIERS"
  shows "\<exists>am ak.
           adjusted_interval (interval_months info) (service_frequency m) = Inr am \<and> 0 < am
         \<and> adjusted_interval (interval_km info) (parts_wear m) = Inr ak \<and> 0 < ak
         \<and> (\<forall>months. (0 < am \<and> of_int am \<le> (months :: float)) = (of_int am \<le> months))
         \<and> (\<forall>km. (0 < ak \<and> ak \<le> (km :: int)) = (ak \<le> km))"
proof -
  from assms(3) have "usage_multiplier u = Inr m"
    by (auto simp: USAGE_MULTIPLIERS_def usage_multiplier_eq)
  with adjusted_interval_exact [OF assms(1,2), of u] show ?thesis
    by auto
qed

text \<open>
  Claim C10. In every entry that \<^verbatim>\<open>calculate_service_due\<close> returns,
  \<^verbatim>\<open>days_overdue\<close> is a non-negative integer. It is 0 when the reason is the
  kilometer reading alone, and it is 0, with that reason, whenever the time condition of
  the entry's service does not hold.
\<close>

theorem days_overdue_nonneg:
  assumes run: "calculate_service_due today v = Inr due"
      and e: "e \<in> set due"
  shows "0 \<le> days_overdue e
       \<and> (due_reason e = ''Kilometer Reading'' \<longrightarrow> days_overdue e = 0)
       \<and> (\<forall>t pd sched info.
             vtype v = Some t \<longrightarrow> purchase_date v = Some pd \<longrightarrow>
             map_of SERVICE_SCHEDULES t = Some sched \<longrightarrow> (service e, info) \<in> set sched \<longrightarrow>
             \<not> (0 < spec_adjusted (interval_months info)
                       (fst (spec_multipliers (get_or (usage v) ''Mixed'')))
                \<and> of_int (spec_adjusted (interval_months info)
                             (fst (spec_multipliers (get_or (usage v) ''Mixed''))))
                    \<le> fl_round (float_of_int
                                  (today - get_or (last_service_date v (service e)) pd)
                                / days_per_month)) \<longrightarrow>
             days_overdue e = 0 \<and> due_reason e = ''Kilometer Reading'')"
proof -
  let ?u = "get_or (usage v) ''Mixed''"
  let ?km = "get_or (current_km v) 0"
  from run obtain pd where pd: "purchase_date v = Some pd"
    by (auto simp: calculate_service_due_def service_due_in_def split: option.splits)
  from run pd obtain t where t: "vtype v = Some t"
    by (auto simp: calculate_service_due_def service_due_in_def split: option.splits)
  obtain m where m: "usage_multiplier ?u = Inr m"
    by (simp add: usage_multiplier_eq)
  from run e pd t m obtain sched where sched: "map_of SERVICE_SCHEDULES t = Some sched"
    and loop: "due_loop (check_service today v pd ?km t m) sched [] = Inr due"
    by (auto simp: calculate_service_due_def service_due_in_def split: option.splits)
  from due_loop_source [OF loop e] obtain s' info'
    where i: "(s', info') \<in> set sched"
      and body: "check_service today v pd ?km t m (s', info') = Inr (Some e)"
    by auto
  from check_service_entry [OF body] have s': "service e = s'" and nonneg: "0 \<le> days_overdue e"
    by auto
  from sched have mem: "(t, sched) \<in> set SERVICE_SCHEDULES"
    by (rule schedule_member)
  with schedule_keys have dist: "distinct (map fst sched)"
    by auto
  from adjusted_interval_exact [OF mem i, of ?u] m
  have am: "adjusted_interval (interval_months info') (service_frequency m)
              = Inr (spec_adjusted (interval_months info') (fst (spec_multipliers ?u)))"
    by auto
  have reason: "due_reason e = ''Kilometer Reading'' \<longrightarrow> days_overdue e = 0"
    using body
    by (auto simp: check_service_def Let_def split: sum.splits option.splits if_splits)
  have "days_overdue e = 0 \<and> due_reason e = ''Kilometer Reading''"
    if "vtype v = Some t'" "purchase_date v = Some pd'"
       "map_of SERVICE_SCHEDULES t' = Some sched'" "(service e, info) \<in> set sched'"
       "\<not> (0 < spec_adjusted (interval_months info) (fst (spec_multipliers ?u))
           \<and> of_int (spec_adjusted (interval_months info) (fst (spec_multipliers ?u)))
               \<le> fl_round (float_of_int (today - get_or (last_service_date v (service e)) pd')
                           / days_per_month))"
    for t' pd' sched' info
  proof -
    from that t pd sched have [simp]: "t' = t" "pd' = pd" "sched' = sched"
      by auto
    from dist i that(4) s' have "info' = info"
      by (auto dest: eq_key_imp_eq_value)
    with check_service_km_only [OF body am] that(5) s' show ?thesis
      by simp
  qed
  with nonneg reason show ?thesis
    by blast
qed

lemmas example_defs =
  example_vehicle_driven_def example_vehicle_def new_vehicle_def example_form_def
  example_state_def

text \<open>
  Witness of C1: the example car ten days after its purchase, 10000 kilometers after the
  initial reading; the general service is due.
\<close>

theorem service_due_iff_witness:
  "vtype example_vehicle_driven = Some ''Car''
   \<and> purchase_date example_vehicle_driven = Some 737942
   \<and> (\<exists>sched info. map_of SERVICE_SCHEDULES ''Car'' = Some sched
          \<and> (''General Service'', info) \<in> set sched)
   \<and> (\<exists>due. calculate_service_due 737952 example_vehicle_driven = Inr due
          \<and> ''General Service'' \<in> service ` set due)"
proof -
  let ?info = "\<lparr>interval_months = 6, interval_km = 10000, cost_range = (2500, 5000)\<rparr>"
  let ?sched = "the (map_of SERVICE_SCHEDULES ''Car'')"
  have t: "vtype example_vehicle_driven = Some ''Car''"
    and pd: "purchase_date example_vehicle_driven = Some 737942"
    by (simp_all add: example_defs)
  have sched: "map_of SERVICE_SCHEDULES ''Car'' = Some ?sched"
    and item: "(''General Service'', ?info) \<in> set ?sched"
    by (simp_all add: SERVICE_SCHEDULES_def)
  from service_due_iff [OF t sched item pd, of 737952]
  have "\<exists>due. calculate_service_due 737952 example_vehicle_driven = Inr due
          \<and> ''General Service'' \<in> service ` set due"
    by (simp add: example_defs get_or_def spec_multipliers_def spec_adjusted_def py_int_def)
  with t pd sched item show ?thesis by blast
qed


text \<open>
  Witness of C4: the general service of a car under commercial usage.
\<close>

theorem adjusted_intervals_positive_witness:
  "(''Car'', the (map_of SERVICE_SCHEDULES ''Car'')) \<in> set SERVICE_SCHEDULES
   \<and> (''General Service'', \<lparr>interval_months = 6, interval_km = 10000, cost_range = (2500, 5000)\<rparr>)
        \<in> set (the (map_of SERVICE_SCHEDULES ''Car''))
   \<and> (''Commercial'', \<lparr>service_frequency = fl_round (15 / 10), parts_wear = fl_round (14 / 10)\<rparr>)
        \<in> set USAGE_MULTIPLIERS
   \<and> (\<exists>am ak. adjusted_interval 6 (fl_round (15 / 10)) = Inr am \<and> 0 < am
          \<and> adjusted_interval 10000 (fl_round (14 / 10)) = Inr ak \<and> 0 < ak)"
proof -
  let ?info = "\<lparr>interval_months = 6, interval_km = 10000, cost_range = (2500, 5000)\<rparr>"
  let ?sched = "the (map_of SERVICE_SCHEDULES ''Car'')"
  let ?m = "\<lparr>service_frequency = fl_round (15 / 10), parts_wear = fl_round (14 / 10)\<rparr>"
  have a: "(''Car'', ?sched) \<in> set SERVICE_SCHEDULES"
    and b: "(''General Service'', ?info) \<in> set ?sched"
    by (simp_all add: SERVICE_SCHEDULES_def)
  have c: "(''Commercial'', ?m) \<in> set USAGE_MULTIPLIERS"
    by (simp add: USAGE_MULTIPLIERS_def)
  from adjusted_intervals_positive [OF a b c]
  have "\<exists>am ak. adjusted_interval 6 (fl_round (15 / 10)) = Inr am \<and> 0 < am
          \<and> adjusted_interval 10000 (fl_round (14 / 10)) = Inr ak \<and> 0 < ak"
    by simp blast
  with a b c show ?thesis by blast
qed


lemmas due_eval =
  calculate_service_due_def service_due_in_def check_service_def [unfolded Let_def]
  timedelta_days_def [unfolded Let_def] usage_multiplier_eq
  SERVICE_SCHEDULES_def SERVICE_PARTS_def get_or_def float_literals days_per_month_eq
  adj_eval int_mul_float_def us_per_day_def fl_eval

lemma example_due_by_km:
  "calculate_service_due 737952 example_vehicle_driven =
     Inr [\<lparr>service = ''General Service'', due_reason = ''Kilometer Reading'',
           days_overdue = 0, due_cost_range = (2500, 5000),
           parts = [''Engine Oil'', ''Oil Filter'', ''Air Filter'', ''Coolant'', ''Wiper Fluid'']\<rparr>,
          \<lparr>service = ''Oil Change'', due_reason = ''Kilometer Reading'',
           days_overdue = 0, due_cost_range = (2000, 3500),
           parts = [''Engine Oil'', ''Oil Filter'']\<rparr>]"
  by (simp add: example_defs due_eval)

lemma example_due_by_time:
  "calculate_service_due 738142 example_vehicle =
     Inr [\<lparr>service = ''General Service'', due_reason = ''Time Interval'',
           days_overdue = 48, due_cost_range = (2500, 5000),
           parts = [''Engine Oil'', ''Oil Filter'', ''Air Filter'', ''Coolant'', ''Wiper Fluid'']\<rparr>]"
  by (simp add: example_defs due_eval)

text \<open>
  Witness of C10: the example car ten days after its purchase and 10000 kilometers after
  the initial reading; the oil change is due by the kilometer reading only.
\<close>

theorem days_overdue_nonneg_witness:
  "\<exists>due e. calculate_service_due 737952 example_vehicle_driven = Inr due
      \<and> e \<in> set due \<and> service e = ''Oil Change''
      \<and> vtype example_vehicle_driven = Some ''Car''
      \<and> purchase_date example_vehicle_driven = Some 737942
      \<and> (''Oil Change'', \<lparr>interval_months = 12, interval_km = 10000, cost_range = (2000, 3500)\<rparr>)
           \<in> set (the (map_of SERVICE_SCHEDULES ''Car''))
      \<and> \<not> (10 \<le> fl_round (float_of_int (737952 - 737942) / days_per_month))
      \<and> 0 \<le> days_overdue e \<and> days_overdue e = 0
      \<and> due_reason e = ''Kilometer Reading''"
proof -
  let ?e = "\<lparr>service = ''Oil Change'', due_reason = ''Kilometer Reading'',
           days_overdue = 0, due_cost_range = (2000, 3500),
           parts = [''Engine Oil'', ''Oil Filter'']\<rparr>"
  let ?info = "\<lparr>interval_months = 12, interval_km = 10000, cost_range = (2000, 3500)\<rparr>"
  let ?sched = "the (map_of SERVICE_SCHEDULES ''Car'')"
  have e: "?e \<in> set [\<lparr>service = ''General Service'', due_reason = ''Kilometer Reading'',
           days_overdue = 0, due_cost_range = (2500, 5000),
           parts = [''Engine Oil'', ''Oil Filter'', ''Air Filter'', ''Coolant'', ''Wiper Fluid'']\<rparr>,
          ?e]"
    by simp
  have t: "vtype example_vehicle_driven = Some ''Car''"
    and pd: "purchase_date example_vehicle_driven = Some 737942"
    by (simp_all add: example_defs)
  have sched: "map_of SERVICE_SCHEDULES ''Car'' = Some ?sched"
    and item: "(''Oil Change'', ?info) \<in> set ?sched"
    by (simp_all add: SERVICE_SCHEDULES_def)
  have months: "\<not> (10 \<le> fl_round (float_of_int (737952 - 737942) / days_per_month))"
    by (simp add: float_of_int_def days_per_month_eq fl_eval)
  from days_overdue_nonneg [OF example_due_by_km e]
  have "0 \<le> days_overdue ?e"
    and "\<And>t pd sched info.
             vtype example_vehicle_driven = Some t \<Longrightarrow>
             purchase_date example_vehicle_driven = Some pd \<Longrightarrow>
             map_of SERVICE_SCHEDULES t = Some sched \<Longrightarrow> (service ?e, info) \<in> set sched \<Longrightarrow>
             \<not> (0 < spec_adjusted (interval_months info)
                       (fst (spec_multipliers (get_or (usage example_vehicle_driven) ''Mixed'')))
                \<and> of_int (spec_adjusted (interval_months info)
                             (fst (spec_multipliers (get_or (usage example_vehicle_driven) ''Mixed''))))
                    \<le> fl_round (float_of_int
                                  (737952 - get_or (last_service_date example_vehicle_driven (service ?e)) pd)
                                / days_per_month)) \<Longrightarrow>
             days_overdue ?e = 0 \<and> due_reason ?e = ''Kilometer Reading''"
    by blast+
  from this(2) [OF t pd sched, of ?info] item months
  have "days_overdue ?e = 0 \<and> due_reason ?e = ''Kilometer Reading''"
    by (simp add: example_defs get_or_def spec_multipliers_def spec_adjusted_def py_int_def)
  with example_due_by_km e t pd item months show ?thesis
    by (intro exI [of _ "[_, ?e]"] exI [of _ ?e]) simp
qed

subsection \<open>The claims about \<^verbatim>\<open>get_recommended_parts\<close>\<close>

lemma set_get_recommended_parts:
  "set (get_recommended_parts v) = set (recommended_parts v)"
  by (simp add: get_recommended_parts_def)

lemma distinct_get_recommended_parts: "distinct (get_recommended_parts v)"
  by (simp add: get_recommended_parts_def)

lemma sorted_get_recommended_parts: "sorted (get_recommended_parts v)"
  by (simp add: get_recommended_parts_def)

lemma set_recommended_parts: "set (recommended_parts v) = spec_selected_parts v"
proof (cases "current_km v")
  case None
  then show ?thesis
    by (cases "usage v"; cases "vtype v")
       (auto simp: recommended_parts_def spec_selected_parts_def km_within_def km_above_def
          get_or_def Let_def)
next
  case (Some km)
  then show ?thesis
    by (cases "usage v"; cases "vtype v")
       (auto simp: recommended_parts_def spec_selected_parts_def km_within_def km_above_def
          get_or_def Let_def)
qed

text \<open>
  Claim C3. For every vehicle record the parts that \<^verbatim>\<open>get_recommended_parts\<close> returns
  are exactly the union of the parts that the kilometer and usage rules select, each part
  once.
\<close>

theorem recommended_parts_rules:
  "set (get_recommended_parts v) = spec_selected_parts v \<and> distinct (get_recommended_parts v)"
  by (simp add: set_get_recommended_parts set_recommended_parts distinct_get_recommended_parts)

text \<open>
  Claim C9. For every vehicle record the list that \<^verbatim>\<open>get_recommended_parts\<close> returns is
  strictly ascending in the lexicographic order of strings, so it has no duplicates.
\<close>

theorem recommended_parts_strictly_sorted:
  "sorted_wrt (<) (get_recommended_parts v)
   \<and> distinct (get_recommended_parts v)"
  using sorted_get_recommended_parts [of v] distinct_get_recommended_parts [of v]
  by (simp add: strict_sorted_iff)


lemma example_recommended_twice:
  "recommended_parts (example_vehicle\<lparr>current_km := Some 60000\<rparr>) =
     [''Brake Pads'', ''Tires'', ''Brake Pads'', ''Air Filter'', ''Clutch Assembly'']"
  "get_recommended_parts (example_vehicle\<lparr>current_km := Some 60000\<rparr>) =
     [''Air Filter'', ''Brake Pads'', ''Clutch Assembly'', ''Tires'']"
  by (simp_all add: get_recommended_parts_def recommended_parts_def example_defs get_or_def)

text \<open>
  Witness of C3: a city car at 90000 kilometers.
\<close>

theorem recommended_parts_rules_witness:
  "set (get_recommended_parts (example_vehicle\<lparr>current_km := Some 90000\<rparr>)) =
     {''Spark Plugs'', ''Suspension Components'', ''Brake Pads'', ''Air Filter'',
      ''Clutch Assembly'', ''Timing Belt''}
   \<and> distinct (get_recommended_parts (example_vehicle\<lparr>current_km := Some 90000\<rparr>))"
  using recommended_parts_rules [of "example_vehicle\<lparr>current_km := Some 90000\<rparr>"]
  by (auto simp: spec_selected_parts_def km_within_def km_above_def example_defs)

text \<open>
  Witness of C9: a city car at 60000 kilometers, where the kilometer rule and the usage
  rule both select the brake pads.
\<close>

theorem recommended_parts_strictly_sorted_witness:
  "recommended_parts (example_vehicle\<lparr>current_km := Some 60000\<rparr>) =
     [''Brake Pads'', ''Tires'', ''Brake Pads'', ''Air Filter'', ''Clutch Assembly'']
   \<and> get_recommended_parts (example_vehicle\<lparr>current_km := Some 60000\<rparr>) =
     [''Air Filter'', ''Brake Pads'', ''Clutch Assembly'', ''Tires'']
   \<and> sorted_wrt (<) (get_recommended_parts (example_vehicle\<lparr>current_km := Some 60000\<rparr>))"
  using recommended_parts_strictly_sorted [of "example_vehicle\<lparr>current_km := Some 60000\<rparr>"]
    example_recommended_twice
  by blast


subsection \<open>The Add Vehicle form and the memo of summaries\<close>

text \<open>
  Claim C7. Submitting the Add Vehicle form appends exactly one record to the list of
  vehicles. The record is built from the selectors and the values of the form, with
  \<^verbatim>\<open>initial_km\<close> equal to the entered current kilometers, and every record stored
  before is unchanged, as is the memo of summaries.
\<close>

theorem add_vehicle_appends_one:
  assumes "submitted form"
  shows "vehicles (add_vehicle_form form st) = vehicles st @ [new_vehicle st form]
       \<and> length (vehicles (add_vehicle_form form st)) = length (vehicles st) + 1
       \<and> (\<forall>i < length (vehicles st).
             vehicles (add_vehicle_form form st) ! i = vehicles st ! i)
       \<and> vtype (new_vehicle st form) = Some (vehicle_type_selector st)
       \<and> brand (new_vehicle st form) = Some (brand_selector st)
       \<and> model (new_vehicle st form) = Some (model_selector st)
       \<and> year (new_vehicle st form) = Some (form_year form)
       \<and> purchase_date (new_vehicle st form) = Some (form_purchase_date form)
       \<and> price (new_vehicle st form) = Some (form_price form)
       \<and> current_km (new_vehicle st form) = Some (form_current_km form)
       \<and> initial_km (new_vehicle st form) = Some (form_current_km form)
       \<and> usage (new_vehicle st form) = Some (form_usage form)
       \<and> parts_cache (add_vehicle_form form st) = parts_cache st"
  using assms
  by (simp add: add_vehicle_form_def new_vehicle_def nth_append)

text \<open>
  Witness of C7: the example form submitted in a state that holds one vehicle.
\<close>

theorem add_vehicle_appends_one_witness:
  "submitted example_form
   \<and> vehicles (add_vehicle_form example_form (example_state\<lparr>vehicles := [example_vehicle_driven]\<rparr>))
       = [example_vehicle_driven, example_vehicle]
   \<and> initial_km example_vehicle = Some 12000
   \<and> current_km example_vehicle = Some 12000"
proof -
  let ?st = "example_state\<lparr>vehicles := [example_vehicle_driven]\<rparr>"
  have s: "submitted example_form"
    by (simp add: example_form_def)
  have same: "new_vehicle ?st example_form = example_vehicle"
    by (simp add: example_vehicle_def new_vehicle_def example_state_def)
  from add_vehicle_appends_one [OF s, of ?st] same s show ?thesis
    by (simp add: example_form_def)
qed

lemma get_wikimedia_summary_cache_le:
  "parts_cache st \<subseteq>\<^sub>m
     parts_cache (state_after (get_wikimedia_summary http_get st title project))"
  by (auto simp: get_wikimedia_summary_def Let_def map_le_def
           split: option.splits http_result.splits list.splits)

lemma get_wikimedia_summary_vehicles:
  "vehicles (state_after (get_wikimedia_summary http_get st title project)) = vehicles st"
  by (auto simp: get_wikimedia_summary_def Let_def
           split: option.splits http_result.splits list.splits)

lemma summary_calls_cache_le:
  "parts_cache st \<subseteq>\<^sub>m parts_cache (summary_calls http_get st calls)"
proof (induction calls arbitrary: st)
  case Nil
  then show ?case by simp
next
  case (Cons call calls)
  obtain title project where [simp]: "call = (title, project)" by (cases call)
  have "parts_cache st \<subseteq>\<^sub>m
          parts_cache (state_after (get_wikimedia_summary http_get st title project))"
    by (rule get_wikimedia_summary_cache_le)
  also have "\<dots> \<subseteq>\<^sub>m parts_cache (summary_calls http_get
                 (state_after (get_wikimedia_summary http_get st title project)) calls)"
    by (rule Cons.IH)
  finally show ?case by simp
qed

lemma example_clean:
  "clean_summary [CHR 0x20, CHR ''A'', CHR 0x0A, CHR 0x0A, CHR ''b'', CHR 0x0A]
     = [CHR ''A'', CHR 0x0A, CHR ''b'']"
  by (simp add: clean_summary_def strip_def is_space_def)

text \<open>
  Counterexample to C6 as stated: the key is absent and the response carries a non-empty
  extract, but under the page id \<^verbatim>\<open>'-1'\<close>; the guard on the page id makes the function
  return \<^verbatim>\<open>"Information not available."\<close> and store nothing.
\<close>

theorem stored_summary_counterexample:
  "''Brake pad'' \<noteq> []
   \<and> parts_cache example_state (cache_key_of ''wikipedia'' ''Brake pad'') = None
   \<and> missing_page_network (get_or (map_of base_url ''wikipedia'') ''wikipedia'') ''Brake pad''
       = Json (Some [(''-1'', Some ''A brake pad.'')])
   \<and> ''A brake pad.'' \<noteq> []
   \<and> parts_cache
        (state_after
          (get_wikimedia_summary missing_page_network example_state (Some ''Brake pad'') ''wikipedia''))
        (cache_key_of ''wikipedia'' ''Brake pad'') = None
   \<and> returned
        (get_wikimedia_summary missing_page_network example_state (Some ''Brake pad'') ''wikipedia'')
       = Inr ''Information not available.''"
  by (simp add: get_wikimedia_summary_def missing_page_network_def example_state_def
        cache_key_of_def base_url_def get_or_def)

text \<open>
  Claim C6, amended. Called with a non-empty title, \<^verbatim>\<open>get_wikimedia_summary\<close> returns
  the summary stored under the key of project and title when there is one, sends no
  request and leaves the state as it is. When the key is absent and the first page of the
  response has an id other than \<^verbatim>\<open>'-1'\<close> and a non-empty extract, it returns the cleaned
  extract and stores it under that key. No call, and no sequence of calls, removes an entry
  of the memo or changes its value, and the vehicles are untouched.
\<close>

theorem parts_cache_memo:
  "(ttl \<noteq> [] \<longrightarrow> parts_cache st (cache_key_of project ttl) = Some summary \<longrightarrow>
      get_wikimedia_summary http_get st (Some ttl) project
        = \<lparr>returned = Inr summary, state_after = st, requests_sent = []\<rparr>)
   \<and> (ttl \<noteq> [] \<longrightarrow> parts_cache st (cache_key_of project ttl) = None \<longrightarrow>
      http_get (get_or (map_of base_url project) ''wikipedia'') ttl
        = Json (Some ((page_id, Some extract) # others)) \<longrightarrow>
      page_id \<noteq> ''-1'' \<longrightarrow> extract \<noteq> [] \<longrightarrow>
      get_wikimedia_summary http_get st (Some ttl) project
        = \<lparr>returned = Inr (clean_summary extract),
           state_after =
             st\<lparr>parts_cache := (parts_cache st)(cache_key_of project ttl \<mapsto> clean_summary extract)\<rparr>,
           requests_sent = [(get_or (map_of base_url project) ''wikipedia'', ttl)]\<rparr>)
   \<and> parts_cache st \<subseteq>\<^sub>m
        parts_cache (state_after (get_wikimedia_summary http_get st title project))
   \<and> parts_cache st \<subseteq>\<^sub>m parts_cache (summary_calls http_get st calls)
   \<and> vehicles (state_after (get_wikimedia_summary http_get st title project)) = vehicles st"
  using get_wikimedia_summary_cache_le [of st http_get title project]
    summary_calls_cache_le [of st http_get calls]
    get_wikimedia_summary_vehicles [of http_get st title project]
  by (simp add: get_wikimedia_summary_def Let_def)

text \<open>
  Witness of C6: a hit in a state that holds the key, and a miss that stores the cleaned
  extract of page 736.
\<close>

theorem parts_cache_memo_witness:
  "get_wikimedia_summary example_network example_cached_state (Some ''Brake pad'') ''wikipedia''
     = \<lparr>returned = Inr ''A brake pad.'', state_after = example_cached_state, requests_sent = []\<rparr>
   \<and> parts_cache example_state (cache_key_of ''wikipedia'' ''Brake pad'') = None
   \<and> get_wikimedia_summary example_network example_state (Some ''Brake pad'') ''wikipedia''
     = \<lparr>returned = Inr [CHR ''A'', CHR 0x0A, CHR ''b''],
        state_after =
          example_state\<lparr>parts_cache := [''wikipedia_Brake pad'' \<mapsto> [CHR ''A'', CHR 0x0A, CHR ''b'']]\<rparr>,
        requests_sent = [(''https://en.wikipedia.org/w/api.php'', ''Brake pad'')]\<rparr>"
proof -
  let ?ex = "[CHR 0x20, CHR ''A'', CHR 0x0A, CHR 0x0A, CHR ''b'', CHR 0x0A]"
  have key: "cache_key_of ''wikipedia'' ''Brake pad'' = ''wikipedia_Brake pad''"
    by (simp add: cache_key_of_def)
  have url: "get_or (map_of base_url ''wikipedia'') ''wikipedia''
               = ''https://en.wikipedia.org/w/api.php''"
    by (simp add: base_url_def get_or_def)
  have hit: "parts_cache example_cached_state (cache_key_of ''wikipedia'' ''Brake pad'')
               = Some ''A brake pad.''"
    by (simp add: example_cached_state_def key)
  have miss: "parts_cache example_state (cache_key_of ''wikipedia'' ''Brake pad'') = None"
    by (simp add: example_state_def)
  have net: "example_network (get_or (map_of base_url ''wikipedia'') ''wikipedia'') ''Brake pad''
               = Json (Some ((''736'', Some ?ex) # []))"
    by (simp add: example_network_def)
  from parts_cache_memo [of "''Brake pad''" example_cached_state "''wikipedia''"
         "''A brake pad.''" example_network] hit
  have a: "get_wikimedia_summary example_network example_cached_state (Some ''Brake pad'')
             ''wikipedia''
           = \<lparr>returned = Inr ''A brake pad.'', state_after = example_cached_state,
              requests_sent = []\<rparr>"
    by simp
  from parts_cache_memo [of "''Brake pad''" example_state "''wikipedia''" _ example_network
         "''736''" ?ex "[]"] miss net
  have b: "get_wikimedia_summary example_network example_state (Some ''Brake pad'') ''wikipedia''
     = \<lparr>returned = Inr [CHR ''A'', CHR 0x0A, CHR ''b''],
        state_after =
          example_state\<lparr>parts_cache := [''wikipedia_Brake pad'' \<mapsto> [CHR ''A'', CHR 0x0A, CHR ''b'']]\<rparr>,
        requests_sent = [(''https://en.wikipedia.org/w/api.php'', ''Brake pad'')]\<rparr>"
    by (simp add: example_clean key url example_state_def)
  from a b miss show ?thesis by blast
qed

end
